theory Spec2Isabelle
  imports Main "HOL-Library.Word"
begin

section \<open>JavaScript strings\<close>

text \<open>
  A JavaScript string is a sequence of UTF-16 code units. Literals of the source are
  ASCII and are written through \<open>js\<close>.
\<close>

type_synonym js_string = "16 word list"

definition js :: "string \<Rightarrow> js_string" where
  "js s = map (\<lambda>c. of_nat (of_char c)) s"

text \<open>
  \<open>String.prototype.trim\<close> removes leading and trailing WhiteSpace and LineTerminator
  code points (ECMAScript, sections 12.2 and 12.3): TAB, LF, VT, FF, CR, SP, NBSP,
  U+1680, U+2000 to U+200A, U+2028, U+2029, U+202F, U+205F, U+3000 and U+FEFF. All of
  them are single code units.
\<close>

definition isWhiteSpace :: "16 word \<Rightarrow> bool" where
  "isWhiteSpace c \<longleftrightarrow>
     c = 0x0009 \<or> c = 0x000A \<or> c = 0x000B \<or> c = 0x000C \<or> c = 0x000D \<or>
     c = 0x0020 \<or> c = 0x00A0 \<or> c = 0x1680 \<or> (0x2000 \<le> c \<and> c \<le> 0x200A) \<or>
     c = 0x2028 \<or> c = 0x2029 \<or> c = 0x202F \<or> c = 0x205F \<or> c = 0x3000 \<or>
     c = 0xFEFF"

definition trimStart :: "js_string \<Rightarrow> js_string" where
  "trimStart s = dropWhile isWhiteSpace s"

definition trimEnd :: "js_string \<Rightarrow> js_string" where
  "trimEnd s = rev (dropWhile isWhiteSpace (rev s))"

definition trim :: "js_string \<Rightarrow> js_string" where
  "trim s = trimEnd (trimStart s)"

text \<open>A string is truthy exactly when it is not empty.\<close>

definition truthy :: "js_string \<Rightarrow> bool" where
  "truthy s \<longleftrightarrow> s \<noteq> []"

text \<open>The nullish coalescing operator \<open>a ?? b\<close>, with \<open>None\<close> for null and undefined.\<close>

definition coalesce :: "'a option \<Rightarrow> 'a option \<Rightarrow> 'a option" where
  "coalesce a b = (case a of Some x \<Rightarrow> Some x | None \<Rightarrow> b)"

section \<open>Data model (types/note.ts, store/notesSlice.ts)\<close>

record NoteCreate =
  title :: js_string
  content :: js_string

text \<open>
  A \<open>Note\<close> has the fields of \<open>NoteCreate\<close> and two more; the field \<open>id\<close> of the source
  is \<open>note_id\<close> here.
\<close>

record Note = NoteCreate +
  note_id :: js_string
  created_at :: js_string

record NotesState =
  items :: "Note list"
  loading :: bool
  creating :: bool
  error :: "js_string option"
  query :: js_string

definition initialState :: NotesState where
  "initialState = \<lparr>items = [], loading = False, creating = False, error = None, query = []\<rparr>"

section \<open>The API client (api/client.ts)\<close>

text \<open>
  What a request can be rejected with. For an Axios error the three fields are what the
  interceptor reads: \<open>error.response?.data?.error?.message\<close>,
  \<open>error.response?.data?.detail\<close> and \<open>error.message\<close>, each \<open>None\<close> when the
  optional chain gives null or undefined, and otherwise the text that \<open>new Error\<close> makes
  of the value. \<open>Error m\<close> is any other \<open>Error\<close> object with message \<open>m\<close>, and
  \<open>NonError\<close> a thrown value that is no \<open>Error\<close> object.
\<close>

datatype thrown =
    AxiosError "js_string option" "js_string option" "js_string option"
  | Error js_string
  | NonError

type_synonym 'a outcome = "thrown + 'a"

fun isAxiosError :: "thrown \<Rightarrow> bool" where
  "isAxiosError (AxiosError _ _ _) = True"
| "isAxiosError _ = False"

fun instanceof_Error :: "thrown \<Rightarrow> bool" where
  "instanceof_Error NonError = False"
| "instanceof_Error _ = True"

text \<open>\<open>error.response?.data?.error?.message\<close>, \<open>error.response?.data?.detail\<close>, \<open>error.message\<close>.\<close>

fun response_data_error_message :: "thrown \<Rightarrow> js_string option" where
  "response_data_error_message (AxiosError m _ _) = m"
| "response_data_error_message _ = None"

fun response_data_detail :: "thrown \<Rightarrow> js_string option" where
  "response_data_detail (AxiosError _ d _) = d"
| "response_data_detail _ = None"

fun message :: "thrown \<Rightarrow> js_string option" where
  "message (AxiosError _ _ m) = m"
| "message (Error m) = Some m"
| "message NonError = None"

text \<open>\<open>new Error(message)\<close>; with an undefined argument the message is the empty string.\<close>

fun new_Error :: "js_string option \<Rightarrow> thrown" where
  "new_Error (Some m) = Error m"
| "new_Error None = Error []"

text \<open>The rejection handler of the response interceptor.\<close>

definition interceptor_rejected :: "thrown \<Rightarrow> thrown" where
  "interceptor_rejected err =
     (if isAxiosError err then
        new_Error
          (coalesce (response_data_error_message err)
            (coalesce (response_data_detail err)
              (coalesce (message err) (Some (js ''An unexpected error occurred'')))))
      else err)"

text \<open>
  \<open>apiClient.get\<close> and \<open>apiClient.post\<close>, given how the transport settles the request:
  a response passes through the interceptor unchanged, a rejection goes through its
  rejection handler.
\<close>

definition apiClient :: "'a outcome \<Rightarrow> 'a outcome" where
  "apiClient settled =
     (case settled of
        Inr response \<Rightarrow> Inr response
      | Inl err \<Rightarrow> Inl (interceptor_rejected err))"

datatype request =
    GET_notes "js_string option"
  | POST_notes NoteCreate

section \<open>The notes slice (store/notesSlice.ts)\<close>

datatype action =
    SetQuery js_string
  | ClearError
  | FetchNotes_pending
  | FetchNotes_fulfilled "Note list"
  | FetchNotes_rejected "js_string option"
  | CreateNote_pending
  | CreateNote_fulfilled Note
  | CreateNote_rejected "js_string option"

text \<open>
  The case reducers. The payload of a rejected action is \<open>None\<close> when the thunk was
  rejected without \<open>rejectWithValue\<close>.
\<close>

fun notesReducer :: "NotesState \<Rightarrow> action \<Rightarrow> NotesState" where
  "notesReducer state (SetQuery payload) = state\<lparr>query := payload\<rparr>"
| "notesReducer state ClearError = state\<lparr>error := None\<rparr>"
| "notesReducer state FetchNotes_pending = state\<lparr>loading := True, error := None\<rparr>"
| "notesReducer state (FetchNotes_fulfilled payload) =
     state\<lparr>loading := False, items := payload\<rparr>"
| "notesReducer state (FetchNotes_rejected payload) =
     state\<lparr>loading := False,
           error := coalesce payload (Some (js ''Failed to fetch notes''))\<rparr>"
| "notesReducer state CreateNote_pending = state\<lparr>creating := True, error := None\<rparr>"
| "notesReducer state (CreateNote_fulfilled payload) =
     state\<lparr>creating := False, items := items state @ [payload]\<rparr>"
| "notesReducer state (CreateNote_rejected payload) =
     state\<lparr>creating := False,
           error := coalesce payload (Some (js ''Failed to create note''))\<rparr>"

text \<open>
  What a payload creator gives back to \<open>createAsyncThunk\<close>: a returned value, or the
  result of \<open>rejectWithValue\<close>; a throw is the \<open>Inl\<close> of the sum.
\<close>

datatype 'a thunk_return = Return 'a | RejectWithValue "js_string option"

definition try_catch :: "(thrown + 'a) \<Rightarrow> (thrown \<Rightarrow> thrown + 'a) \<Rightarrow> thrown + 'a" where
  "try_catch body handler = (case body of Inl e \<Rightarrow> handler e | Inr v \<Rightarrow> Inr v)"

text \<open>
  The argument of \<open>fetchNotes\<close>: \<open>undefined\<close>, or an object whose \<open>q\<close> is absent
  (\<open>None\<close>) or a string.
\<close>

datatype fetch_args = Undefined | Obj "js_string option"

text \<open>Line 52: the \<open>params\<close> of the GET request, \<open>None\<close> for \<open>undefined\<close>.\<close>

fun fetchNotes_params :: "fetch_args \<Rightarrow> js_string option" where
  "fetchNotes_params Undefined = None"
| "fetchNotes_params (Obj None) = None"
| "fetchNotes_params (Obj (Some q)) = (if truthy q then Some q else None)"

text \<open>
  The payload creators, from the point where the awaited request settles: the rest of
  the \<open>try\<close> block, and the \<open>catch\<close> block.
\<close>

definition fetchNotes_payloadCreator :: "Note list outcome \<Rightarrow> thrown + Note list thunk_return" where
  "fetchNotes_payloadCreator settled =
     try_catch
       (case apiClient settled of
          Inl err \<Rightarrow> Inl err
        | Inr data \<Rightarrow> Inr (Return data))
       (\<lambda>err.
          Inr (RejectWithValue
            (if instanceof_Error err then message err
             else Some (js ''Failed to fetch notes''))))"

definition createNote_payloadCreator :: "Note outcome \<Rightarrow> thrown + Note thunk_return" where
  "createNote_payloadCreator settled =
     try_catch
       (case apiClient settled of
          Inl err \<Rightarrow> Inl err
        | Inr data \<Rightarrow> Inr (Return data))
       (\<lambda>err.
          Inr (RejectWithValue
            (if instanceof_Error err then message err
             else Some (js ''Failed to create note''))))"

text \<open>
  The action \<open>createAsyncThunk\<close> dispatches when the payload creator is done, which is
  also what the promise of \<open>dispatch(thunk)\<close> resolves to: fulfilled with the returned
  value, rejected with the value of \<open>rejectWithValue\<close>, rejected without payload when
  the payload creator threw.
\<close>

fun fetchNotes_settled :: "thrown + Note list thunk_return \<Rightarrow> action" where
  "fetchNotes_settled (Inr (Return data)) = FetchNotes_fulfilled data"
| "fetchNotes_settled (Inr (RejectWithValue v)) = FetchNotes_rejected v"
| "fetchNotes_settled (Inl _) = FetchNotes_rejected None"

fun createNote_settled :: "thrown + Note thunk_return \<Rightarrow> action" where
  "createNote_settled (Inr (Return data)) = CreateNote_fulfilled data"
| "createNote_settled (Inr (RejectWithValue v)) = CreateNote_rejected v"
| "createNote_settled (Inl _) = CreateNote_rejected None"

section \<open>The application (App.tsx)\<close>

text \<open>The store together with the requests issued so far, oldest first.\<close>

record app =
  store :: NotesState
  sent :: "request list"

definition dispatch :: "action \<Rightarrow> app \<Rightarrow> app" where
  "dispatch a w = w\<lparr>store := notesReducer (store w) a\<rparr>"

definition send :: "request \<Rightarrow> app \<Rightarrow> app" where
  "send r w = w\<lparr>sent := sent w @ [r]\<rparr>"

text \<open>
  \<open>dispatch(fetchNotes(args))\<close> up to the \<open>await\<close> of the payload creator: the pending
  action is dispatched and the request goes out. \<open>fetchNotes_finish\<close> is the rest, run
  when the request has settled; it gives the dispatched action too.
\<close>

definition fetchNotes_begin :: "fetch_args \<Rightarrow> app \<Rightarrow> app" where
  "fetchNotes_begin args w =
     send (GET_notes (fetchNotes_params args)) (dispatch FetchNotes_pending w)"

definition fetchNotes_finish :: "Note list outcome \<Rightarrow> app \<Rightarrow> action \<times> app" where
  "fetchNotes_finish settled w =
     (let result = fetchNotes_settled (fetchNotes_payloadCreator settled)
      in (result, dispatch result w))"

definition createNote_begin :: "NoteCreate \<Rightarrow> app \<Rightarrow> app" where
  "createNote_begin data w = send (POST_notes data) (dispatch CreateNote_pending w)"

definition createNote_finish :: "Note outcome \<Rightarrow> app \<Rightarrow> action \<times> app" where
  "createNote_finish settled w =
     (let result = createNote_settled (createNote_payloadCreator settled)
      in (result, dispatch result w))"

definition handleSearch :: "js_string \<Rightarrow> app \<Rightarrow> app" where
  "handleSearch query' w =
     fetchNotes_begin (if truthy query' then Obj (Some query') else Undefined)
       (dispatch (SetQuery query') w)"

text \<open>\<open>createNote.fulfilled.match\<close>.\<close>

fun createNote_fulfilled_match :: "action \<Rightarrow> bool" where
  "createNote_fulfilled_match (CreateNote_fulfilled _) = True"
| "createNote_fulfilled_match _ = False"

text \<open>
  \<open>handleCreate\<close> from the point where the awaited create has settled, in the state of
  that moment, and \<open>handleCreate\<close> as a whole when nothing else happens in between. The
  first component is the reason the returned promise rejects with, \<open>None\<close> when it
  resolves.
\<close>

definition handleCreate_resume :: "Note outcome \<Rightarrow> app \<Rightarrow> thrown option \<times> app" where
  "handleCreate_resume settled w =
     (case createNote_finish settled w of (result, w') \<Rightarrow>
        if createNote_fulfilled_match result
        then (None, fetchNotes_begin Undefined w')
        else (None, w'))"

definition handleCreate :: "Note outcome \<Rightarrow> NoteCreate \<Rightarrow> app \<Rightarrow> thrown option \<times> app" where
  "handleCreate settled data w = handleCreate_resume settled (createNote_begin data w)"

section \<open>The search bar (components/SearchBar.tsx)\<close>

text \<open>
  The component's state is \<open>input\<close>; the handlers give the new input and the effect of
  the \<open>onSearch\<close> callback.
\<close>

definition SearchBar_handleSearch ::
  "(js_string \<Rightarrow> 'w \<Rightarrow> 'w) \<Rightarrow> js_string \<Rightarrow> 'w \<Rightarrow> js_string \<times> 'w" where
  "SearchBar_handleSearch onSearch input w = (input, onSearch (trim input) w)"

definition SearchBar_handleClear ::
  "(js_string \<Rightarrow> 'w \<Rightarrow> 'w) \<Rightarrow> js_string \<Rightarrow> 'w \<Rightarrow> js_string \<times> 'w" where
  "SearchBar_handleClear onSearch input w = ([], onSearch [] w)"

section \<open>The create form (components/NoteForm.tsx)\<close>

text \<open>
  The component's state is the pair of \<open>title\<close> and \<open>content\<close>; \<open>creating\<close> is a prop.
\<close>

definition isValid :: "js_string \<Rightarrow> js_string \<Rightarrow> bool" where
  "isValid title' content' \<longleftrightarrow> length (trim title') > 0 \<and> length (trim content') > 0"

text \<open>The \<open>disabled\<close> prop of the submit button.\<close>

definition submit_disabled :: "bool \<Rightarrow> js_string \<Rightarrow> js_string \<Rightarrow> bool" where
  "submit_disabled creating' title' content' \<longleftrightarrow> \<not> isValid title' content' \<or> creating'"

text \<open>
  \<open>handleSubmit\<close>: the reason its promise rejects with (\<open>None\<close> when it resolves), the new
  title and content, and the effect of \<open>onSubmit\<close>. When the awaited \<open>onSubmit\<close> rejects,
  the two assignments after it are not reached.
\<close>

definition handleSubmit ::
  "(NoteCreate \<Rightarrow> 'w \<Rightarrow> thrown option \<times> 'w) \<Rightarrow> bool \<Rightarrow> js_string \<times> js_string \<Rightarrow> 'w
     \<Rightarrow> thrown option \<times> (js_string \<times> js_string) \<times> 'w" where
  "handleSubmit onSubmit creating' form w =
     (case form of (title', content') \<Rightarrow>
        if \<not> isValid title' content' \<or> creating' then (None, form, w)
        else
          (case onSubmit \<lparr>title = trim title', content = trim content'\<rparr> w of
             (Some e, w') \<Rightarrow> (Some e, form, w')
           | (None, w') \<Rightarrow> (None, ([], []), w')))"

text \<open>The form as \<open>App\<close> mounts it: \<open>onSubmit\<close> is \<open>handleCreate\<close>, \<open>creating\<close> comes from the store.\<close>

definition App_submit ::
  "Note outcome \<Rightarrow> js_string \<times> js_string \<Rightarrow> app \<Rightarrow> thrown option \<times> (js_string \<times> js_string) \<times> app" where
  "App_submit settled form w =
     handleSubmit (handleCreate settled) (creating (store w)) form w"

section \<open>Facts about trimming\<close>

lemma trimEnd_prefix: "\<exists>ys. s = trimEnd s @ ys"
proof -
  have "rev (rev s) = rev (takeWhile isWhiteSpace (rev s) @ dropWhile isWhiteSpace (rev s))"
    by (simp only: takeWhile_dropWhile_id)
  then have "s = trimEnd s @ rev (takeWhile isWhiteSpace (rev s))"
    by (simp only: rev_rev_ident rev_append trimEnd_def)
  then show ?thesis ..
qed

lemma hd_trimEnd: "trimEnd s \<noteq> [] \<Longrightarrow> hd (trimEnd s) = hd s"
proof -
  assume ne: "trimEnd s \<noteq> []"
  obtain ys where "s = trimEnd s @ ys" using trimEnd_prefix by blast
  then have "hd s = hd (trimEnd s @ ys)" by simp
  with ne show ?thesis by simp
qed

lemma trimEnd_Nil: "trimEnd [] = []"
  by (simp add: trimEnd_def)

lemma hd_trim: "trim s \<noteq> [] \<Longrightarrow> \<not> isWhiteSpace (hd (trim s))"
proof -
  assume ne: "trim s \<noteq> []"
  then have "trimStart s \<noteq> []"
    using trimEnd_Nil by (auto simp: trim_def)
  then have "\<not> isWhiteSpace (hd (trimStart s))"
    unfolding trimStart_def by (rule hd_dropWhile)
  moreover have "hd (trim s) = hd (trimStart s)"
    using ne hd_trimEnd [of "trimStart s"] by (simp add: trim_def)
  ultimately show ?thesis by simp
qed

lemma last_trimEnd: "trimEnd s \<noteq> [] \<Longrightarrow> \<not> isWhiteSpace (last (trimEnd s))"
proof -
  assume ne: "trimEnd s \<noteq> []"
  then have "dropWhile isWhiteSpace (rev s) \<noteq> []"
    by (simp add: trimEnd_def)
  then have "\<not> isWhiteSpace (hd (dropWhile isWhiteSpace (rev s)))"
    by (rule hd_dropWhile)
  then show ?thesis
    by (simp add: trimEnd_def last_rev)
qed

lemma last_trim: "trim s \<noteq> [] \<Longrightarrow> \<not> isWhiteSpace (last (trim s))"
  unfolding trim_def by (rule last_trimEnd)

lemma isValid_iff: "isValid t c \<longleftrightarrow> trim t \<noteq> [] \<and> trim c \<noteq> []"
  by (simp add: isValid_def)

lemma trim_idem: "trim (trim s) = trim s"
proof (cases "trim s = []")
  case True
  have "trim [] = []"
    by (simp add: trim_def trimStart_def trimEnd_def)
  with True show ?thesis by simp
next
  case False
  have a: "trimStart (trim s) = trim s"
    using hd_trim [OF False] by (simp add: trimStart_def dropWhile_eq_self_iff)
  have "dropWhile isWhiteSpace (rev (trim s)) = rev (trim s)"
    using last_trim [OF False] by (simp add: dropWhile_eq_self_iff hd_rev)
  then have "trimEnd (trim s) = trim s"
    by (simp add: trimEnd_def)
  with a show ?thesis by (simp add: trim_def [of "trim s"])
qed

section \<open>Facts about the thunks and the handlers\<close>

lemma fetchNotes_succeeds:
  "fetchNotes_settled (fetchNotes_payloadCreator (Inr L)) = FetchNotes_fulfilled L"
  by (simp add: fetchNotes_payloadCreator_def try_catch_def apiClient_def)

lemma createNote_succeeds:
  "createNote_settled (createNote_payloadCreator (Inr n)) = CreateNote_fulfilled n"
  by (simp add: createNote_payloadCreator_def try_catch_def apiClient_def)

lemma fetchNotes_fails:
  "\<exists>m. fetchNotes_payloadCreator (Inl e) = Inr (RejectWithValue (Some m))"
  by (cases e)
    (auto simp: fetchNotes_payloadCreator_def try_catch_def apiClient_def
      interceptor_rejected_def coalesce_def split: option.splits)

lemma createNote_fails:
  "\<exists>m. createNote_payloadCreator (Inl e) = Inr (RejectWithValue (Some m))"
  by (cases e)
    (auto simp: createNote_payloadCreator_def try_catch_def apiClient_def
      interceptor_rejected_def coalesce_def split: option.splits)

lemma createNote_finish_fulfilled:
  "createNote_finish (Inr n) w = (CreateNote_fulfilled n, dispatch (CreateNote_fulfilled n) w)"
  by (simp add: createNote_finish_def createNote_succeeds Let_def)

lemma createNote_finish_rejected:
  "\<exists>m. createNote_finish (Inl e) w =
     (CreateNote_rejected (Some m), dispatch (CreateNote_rejected (Some m)) w)"
proof -
  obtain m where "createNote_payloadCreator (Inl e) = Inr (RejectWithValue (Some m))"
    using createNote_fails by blast
  then have "createNote_finish (Inl e) w =
      (CreateNote_rejected (Some m), dispatch (CreateNote_rejected (Some m)) w)"
    by (simp add: createNote_finish_def Let_def)
  then show ?thesis ..
qed

lemma handleCreate_resume_fulfilled:
  "handleCreate_resume (Inr n) w =
     (None, fetchNotes_begin Undefined (dispatch (CreateNote_fulfilled n) w))"
  by (simp add: handleCreate_resume_def createNote_finish_fulfilled)

lemma handleCreate_resume_rejected:
  "\<exists>m. handleCreate_resume (Inl e) w = (None, dispatch (CreateNote_rejected (Some m)) w)"
proof -
  obtain m where "createNote_finish (Inl e) w =
      (CreateNote_rejected (Some m), dispatch (CreateNote_rejected (Some m)) w)"
    using createNote_finish_rejected by blast
  then have "handleCreate_resume (Inl e) w = (None, dispatch (CreateNote_rejected (Some m)) w)"
    by (simp add: handleCreate_resume_def)
  then show ?thesis ..
qed

lemma handleCreate_resolves: "fst (handleCreate settled data w) = None"
  by (simp add: handleCreate_def handleCreate_resume_def split: prod.splits)

lemma sent_dispatch: "sent (dispatch a w) = sent w"
  by (simp add: dispatch_def)

lemma sent_send: "sent (send r w) = sent w @ [r]"
  by (simp add: send_def)

lemma store_send: "store (send r w) = store w"
  by (simp add: send_def)

lemma store_dispatch: "store (dispatch a w) = notesReducer (store w) a"
  by (simp add: dispatch_def)

text \<open>
  The requests of \<open>handleCreate\<close>: the POST, and after a fulfilled create a GET without
  \<open>params\<close>, whatever the query of the store is.
\<close>

lemma sent_handleCreate:
  "sent (snd (handleCreate settled data w)) =
     sent w @ [POST_notes data] @ (case settled of Inr _ \<Rightarrow> [GET_notes None] | Inl _ \<Rightarrow> [])"
proof (cases settled)
  case (Inl e)
  obtain m where "handleCreate_resume (Inl e) (createNote_begin data w) =
      (None, dispatch (CreateNote_rejected (Some m)) (createNote_begin data w))"
    using handleCreate_resume_rejected by blast
  with Inl show ?thesis
    by (simp add: handleCreate_def sent_dispatch createNote_begin_def sent_send)
next
  case (Inr n)
  then show ?thesis
    by (simp add: handleCreate_def handleCreate_resume_fulfilled fetchNotes_begin_def
        createNote_begin_def sent_dispatch sent_send)
qed

lemma App_submit_valid:
  assumes "isValid t c" and "\<not> creating (store w)"
  shows "App_submit settled (t, c) w =
     (None, ([], []), snd (handleCreate settled \<lparr>title = trim t, content = trim c\<rparr> w))"
proof -
  obtain w' where "handleCreate settled \<lparr>title = trim t, content = trim c\<rparr> w = (None, w')"
    using handleCreate_resolves [of settled "\<lparr>title = trim t, content = trim c\<rparr>" w]
    by (cases "handleCreate settled \<lparr>title = trim t, content = trim c\<rparr> w") simp
  with assms show ?thesis
    by (simp add: App_submit_def handleSubmit_def)
qed

section \<open>The properties of the specification\<close>

text \<open>
  C1 (post-create re-synchronisation). The specification asks that the fetch after a
  fulfilled create carries the active query as \<open>q\<close>. \<open>handleCreate\<close> calls \<open>fetchNotes()\<close>
  without an argument: after a search for \<open>python\<close> (which does send \<open>q = python\<close>) and a
  fulfilled create, the requests are the filtered GET of the search, the POST, and a GET
  without \<open>params\<close>, while the query of the store is still \<open>python\<close>.
\<close>

theorem post_create_refetch_unfiltered:
  "sent (snd (handleCreate
       (Inr \<lparr>title = js ''Python Guide'', content = js ''Learn Python'',
             note_id = js ''1'', created_at = js ''2026-01-01''\<rparr>)
       \<lparr>title = js ''Python Guide'', content = js ''Learn Python''\<rparr>
       (handleSearch (js ''python'') \<lparr>store = initialState, sent = []\<rparr>))) =
     [GET_notes (Some (js ''python'')),
      POST_notes \<lparr>title = js ''Python Guide'', content = js ''Learn Python''\<rparr>,
      GET_notes None]
   \<and> query (store (snd (handleCreate
       (Inr \<lparr>title = js ''Python Guide'', content = js ''Learn Python'',
             note_id = js ''1'', created_at = js ''2026-01-01''\<rparr>)
       \<lparr>title = js ''Python Guide'', content = js ''Learn Python''\<rparr>
       (handleSearch (js ''python'') \<lparr>store = initialState, sent = []\<rparr>)))) = js ''python''"
  by (simp add: handleCreate_def handleCreate_resume_fulfilled fetchNotes_begin_def
      createNote_begin_def handleSearch_def dispatch_def send_def truthy_def initialState_def
      js_def)

text \<open>
  C2 (fetch). In every state the pending action of a fetch sets \<open>loading\<close> and clears
  \<open>error\<close>; a fetch that settles with the list \<open>L\<close> dispatches the fulfilled action with
  \<open>L\<close>, after which \<open>items\<close> is \<open>L\<close>, whatever it was, and \<open>loading\<close> is false.
\<close>

theorem fetch_pending_then_fulfilled:
  "loading (notesReducer s FetchNotes_pending) = True
   \<and> error (notesReducer s FetchNotes_pending) = None
   \<and> store (fetchNotes_begin args w) = notesReducer (store w) FetchNotes_pending
   \<and> fetchNotes_finish (Inr L) w' =
       (FetchNotes_fulfilled L, dispatch (FetchNotes_fulfilled L) w')
   \<and> items (notesReducer s' (FetchNotes_fulfilled L)) = L
   \<and> loading (notesReducer s' (FetchNotes_fulfilled L)) = False"
  by (simp add: fetchNotes_begin_def store_send store_dispatch fetchNotes_finish_def
      fetchNotes_succeeds Let_def)

text \<open>
  C3 (create). In every state the pending action of a create sets \<open>creating\<close> and clears
  \<open>error\<close>; a create that settles with the note \<open>n\<close> dispatches the fulfilled action with
  \<open>n\<close>, after which \<open>items\<close> is the previous list with \<open>n\<close> appended and \<open>creating\<close> is
  false.
\<close>

theorem create_pending_then_fulfilled:
  "creating (notesReducer s CreateNote_pending) = True
   \<and> error (notesReducer s CreateNote_pending) = None
   \<and> store (createNote_begin data w) = notesReducer (store w) CreateNote_pending
   \<and> createNote_finish (Inr n) w' =
       (CreateNote_fulfilled n, dispatch (CreateNote_fulfilled n) w')
   \<and> items (notesReducer s' (CreateNote_fulfilled n)) = items s' @ [n]
   \<and> creating (notesReducer s' (CreateNote_fulfilled n)) = False"
  by (simp add: createNote_begin_def store_send store_dispatch createNote_finish_fulfilled)

text \<open>
  C4 (failure). The stored message need not be non-empty: when the server answers with
  an error body whose message is the empty string, the interceptor keeps it (\<open>??\<close> only
  replaces null and undefined), the thunk rejects with it, and \<open>error\<close> becomes the
  empty string.
\<close>

theorem rejected_empty_message_counterexample:
  "fst (fetchNotes_finish
        (Inl (AxiosError (Some []) None (Some (js ''Request failed with status code 422''))))
        \<lparr>store = initialState, sent = []\<rparr>) = FetchNotes_rejected (Some [])
   \<and> error (store (snd (fetchNotes_finish
        (Inl (AxiosError (Some []) None (Some (js ''Request failed with status code 422''))))
        \<lparr>store = initialState, sent = []\<rparr>))) = Some []"
  by (simp add: fetchNotes_finish_def fetchNotes_payloadCreator_def try_catch_def apiClient_def
      interceptor_rejected_def coalesce_def dispatch_def Let_def)

text \<open>
  C4, as the code has it. In every state a rejected fetch sets \<open>loading\<close> to false and a
  rejected create sets \<open>creating\<close> to false; \<open>items\<close> is unchanged; \<open>error\<close> becomes the
  payload of the rejection, or the fallback text of the operation when there is no
  payload. The message is non-empty unless the payload is the empty string.
\<close>

theorem rejected_keeps_items:
  "loading (notesReducer s (FetchNotes_rejected p)) = False
   \<and> items (notesReducer s (FetchNotes_rejected p)) = items s
   \<and> error (notesReducer s (FetchNotes_rejected p)) =
       Some (case p of Some m \<Rightarrow> m | None \<Rightarrow> js ''Failed to fetch notes'')
   \<and> creating (notesReducer s (CreateNote_rejected p)) = False
   \<and> items (notesReducer s (CreateNote_rejected p)) = items s
   \<and> error (notesReducer s (CreateNote_rejected p)) =
       Some (case p of Some m \<Rightarrow> m | None \<Rightarrow> js ''Failed to create note'')
   \<and> (p \<noteq> Some [] \<longrightarrow>
        (\<exists>m. m \<noteq> [] \<and> error (notesReducer s (FetchNotes_rejected p)) = Some m)
      \<and> (\<exists>m. m \<noteq> [] \<and> error (notesReducer s (CreateNote_rejected p)) = Some m))"
  by (cases p) (simp_all add: coalesce_def js_def)

theorem rejected_keeps_items_witness:
  "Some (js ''Network Error'') \<noteq> Some []
   \<and> (\<exists>m. m \<noteq> [] \<and>
        error (notesReducer initialState (FetchNotes_rejected (Some (js ''Network Error'')))) =
          Some m)
   \<and> (\<exists>m. m \<noteq> [] \<and>
        error (notesReducer initialState (CreateNote_rejected (Some (js ''Network Error'')))) =
          Some m)"
  using rejected_keeps_items [of initialState "Some (js ''Network Error'')"]
  by (simp add: js_def)

text \<open>
  C5 (blank search). When the trimmed input of the search bar is empty, a search sets
  the query to the empty string and issues the GET without \<open>params\<close>; so does the clear
  button, for any input. The thunk itself drops an empty \<open>q\<close> too.
\<close>

theorem blank_search_fetches_all:
  assumes "trim input = []"
  shows "sent (snd (SearchBar_handleSearch handleSearch input w)) = sent w @ [GET_notes None]
    \<and> query (store (snd (SearchBar_handleSearch handleSearch input w))) = []
    \<and> sent (snd (SearchBar_handleClear handleSearch input' w)) = sent w @ [GET_notes None]
    \<and> fetchNotes_params (Obj (Some [])) = None"
  using assms
  by (simp add: SearchBar_handleSearch_def SearchBar_handleClear_def handleSearch_def
      fetchNotes_begin_def truthy_def sent_send sent_dispatch store_send store_dispatch)

theorem blank_search_fetches_all_witness:
  "trim (js [CHR '' '', CHR 0x09, CHR '' '']) = []
   \<and> sent (snd (SearchBar_handleSearch handleSearch (js [CHR '' '', CHR 0x09, CHR '' ''])
        \<lparr>store = initialState\<lparr>query := js ''python''\<rparr>,
         sent = [GET_notes (Some (js ''python''))]\<rparr>)) =
      [GET_notes (Some (js ''python'')), GET_notes None]"
proof -
  have h: "trim (js [CHR '' '', CHR 0x09, CHR '' '']) = []"
    by (simp add: trim_def trimStart_def trimEnd_def isWhiteSpace_def js_def)
  show ?thesis
    using h blank_search_fetches_all [OF h,
        of "\<lparr>store = initialState\<lparr>query := js ''python''\<rparr>,
            sent = [GET_notes (Some (js ''python''))]\<rparr>"]
    by simp
qed

text \<open>
  C6 (client-side validation). When the trimmed title or the trimmed content is empty,
  the submit button is disabled, and \<open>handleSubmit\<close> returns without calling \<open>onSubmit\<close>:
  whatever \<open>onSubmit\<close> is, nothing changes. Mounted in \<open>App\<close>, the store and the requests
  stay as they were, so no create is dispatched and no request goes out.
\<close>

theorem invalid_submit_rejected:
  assumes "trim t = [] \<or> trim c = []"
  shows "submit_disabled cr t c
    \<and> handleSubmit onSubmit cr (t, c) w = (None, (t, c), w)
    \<and> App_submit settled (t, c) a = (None, (t, c), a)"
  using assms
  by (auto simp: submit_disabled_def handleSubmit_def App_submit_def isValid_def)

theorem invalid_submit_rejected_witness:
  "(trim (js ''Hello'') = [] \<or> trim (js ''  '') = [])
   \<and> submit_disabled False (js ''Hello'') (js ''  '')
   \<and> App_submit
        (Inr \<lparr>title = js ''Hello'', content = [], note_id = js ''1'',
              created_at = js ''2026-01-01''\<rparr>)
        (js ''Hello'', js ''  '') \<lparr>store = initialState, sent = []\<rparr> =
      (None, (js ''Hello'', js ''  ''), \<lparr>store = initialState, sent = []\<rparr>)"
proof -
  have h: "trim (js ''Hello'') = [] \<or> trim (js ''  '') = []"
    by (simp add: trim_def trimStart_def trimEnd_def isWhiteSpace_def js_def)
  show ?thesis
    using h invalid_submit_rejected [OF h, where cr = False
        and settled = "Inr \<lparr>title = js ''Hello'', content = [], note_id = js ''1'',
              created_at = js ''2026-01-01''\<rparr>"
        and a = "\<lparr>store = initialState, sent = []\<rparr>"
        and onSubmit = "handleCreate (Inl NonError)"
        and w = "\<lparr>store = initialState, sent = []\<rparr>"]
    by simp
qed

text \<open>
  C7 (dismissing an error). In every state \<open>clearError\<close> sets \<open>error\<close> to none and leaves
  \<open>items\<close>, \<open>loading\<close>, \<open>creating\<close> and \<open>query\<close> as they were; it issues no request.
\<close>

theorem clearError_frame:
  "notesReducer s ClearError = s\<lparr>error := None\<rparr>
   \<and> error (notesReducer s ClearError) = None
   \<and> items (notesReducer s ClearError) = items s
   \<and> loading (notesReducer s ClearError) = loading s
   \<and> creating (notesReducer s ClearError) = creating s
   \<and> query (notesReducer s ClearError) = query s
   \<and> sent (dispatch ClearError w) = sent w"
  by (simp add: dispatch_def)

text \<open>
  C8 (no uncaught failure). Whatever a fetch or a create is rejected with (an Axios
  error with or without a response body, another \<open>Error\<close>, a value that is no \<open>Error\<close>),
  the payload creator does not throw but rejects with a message, the rejected action
  carries that message, and the reducer stores it in \<open>error\<close>. However the request
  settles, the payload creators never throw, and the promise of \<open>handleCreate\<close> resolves.
\<close>

theorem failures_become_stored_error:
  "(\<exists>m. fetchNotes_payloadCreator (Inl e) = Inr (RejectWithValue (Some m))
      \<and> fetchNotes_finish (Inl e) w =
          (FetchNotes_rejected (Some m), dispatch (FetchNotes_rejected (Some m)) w)
      \<and> error (store (snd (fetchNotes_finish (Inl e) w))) = Some m)
   \<and> (\<exists>m. createNote_payloadCreator (Inl e) = Inr (RejectWithValue (Some m))
      \<and> createNote_finish (Inl e) w =
          (CreateNote_rejected (Some m), dispatch (CreateNote_rejected (Some m)) w)
      \<and> error (store (snd (createNote_finish (Inl e) w))) = Some m)
   \<and> \<not> isl (fetchNotes_payloadCreator settled_fetch)
   \<and> \<not> isl (createNote_payloadCreator settled_create)
   \<and> fst (handleCreate settled_create data w) = None"
proof (intro conjI)
  obtain m where "fetchNotes_payloadCreator (Inl e) = Inr (RejectWithValue (Some m))"
    using fetchNotes_fails by blast
  then show "\<exists>m. fetchNotes_payloadCreator (Inl e) = Inr (RejectWithValue (Some m))
      \<and> fetchNotes_finish (Inl e) w =
          (FetchNotes_rejected (Some m), dispatch (FetchNotes_rejected (Some m)) w)
      \<and> error (store (snd (fetchNotes_finish (Inl e) w))) = Some m"
    by (simp add: fetchNotes_finish_def Let_def store_dispatch coalesce_def)
  obtain m' where "createNote_payloadCreator (Inl e) = Inr (RejectWithValue (Some m'))"
    using createNote_fails by blast
  then show "\<exists>m. createNote_payloadCreator (Inl e) = Inr (RejectWithValue (Some m))
      \<and> createNote_finish (Inl e) w =
          (CreateNote_rejected (Some m), dispatch (CreateNote_rejected (Some m)) w)
      \<and> error (store (snd (createNote_finish (Inl e) w))) = Some m"
    by (simp add: createNote_finish_def Let_def store_dispatch coalesce_def)
  show "\<not> isl (fetchNotes_payloadCreator settled_fetch)"
    by (simp add: fetchNotes_payloadCreator_def try_catch_def split: sum.splits)
  show "\<not> isl (createNote_payloadCreator settled_create)"
    by (simp add: createNote_payloadCreator_def try_catch_def split: sum.splits)
  show "fst (handleCreate settled_create data w) = None"
    by (rule handleCreate_resolves)
qed

text \<open>
  C9 (trimmed payload). A submission that passes the guard of \<open>handleSubmit\<close> (title and
  content valid, no create in flight) posts the trimmed title and the trimmed content,
  and that POST is the only create request. Neither field of the payload starts or ends
  with white space; trimming it again changes nothing.
\<close>

theorem submit_sends_trimmed:
  assumes "isValid t c" and "\<not> creating (store w)"
  shows "sent (snd (snd (App_submit settled (t, c) w))) =
       sent w @ [POST_notes \<lparr>title = trim t, content = trim c\<rparr>]
         @ (case settled of Inr _ \<Rightarrow> [GET_notes None] | Inl _ \<Rightarrow> [])
    \<and> \<not> isWhiteSpace (hd (trim t)) \<and> \<not> isWhiteSpace (last (trim t))
    \<and> \<not> isWhiteSpace (hd (trim c)) \<and> \<not> isWhiteSpace (last (trim c))
    \<and> trim (trim t) = trim t \<and> trim (trim c) = trim c"
proof -
  have posted: "sent (snd (snd (App_submit settled (t, c) w))) =
       sent w @ [POST_notes \<lparr>title = trim t, content = trim c\<rparr>]
         @ (case settled of Inr _ \<Rightarrow> [GET_notes None] | Inl _ \<Rightarrow> [])"
    by (simp add: App_submit_valid [OF assms] sent_handleCreate)
  from assms(1) have ne: "trim t \<noteq> []" "trim c \<noteq> []"
    by (simp_all add: isValid_iff)
  have ends_t: "\<not> isWhiteSpace (hd (trim t)) \<and> \<not> isWhiteSpace (last (trim t))"
    using hd_trim [OF ne(1)] last_trim [OF ne(1)] by simp
  have ends_c: "\<not> isWhiteSpace (hd (trim c)) \<and> \<not> isWhiteSpace (last (trim c))"
    using hd_trim [OF ne(2)] last_trim [OF ne(2)] by simp
  have "trim (trim t) = trim t \<and> trim (trim c) = trim c"
    by (simp add: trim_idem)
  with posted ends_t ends_c show ?thesis by blast
qed

theorem submit_sends_trimmed_witness:
  "isValid (js ''  Hello '') (js [CHR ''W'', CHR ''o'', CHR 0x0A])
   \<and> \<not> creating (store \<lparr>store = initialState, sent = []\<rparr>)
   \<and> sent (snd (snd (App_submit (Inl (Error (js ''Network Error'')))
        (js ''  Hello '', js [CHR ''W'', CHR ''o'', CHR 0x0A])
        \<lparr>store = initialState, sent = []\<rparr>))) =
      [POST_notes \<lparr>title = js ''Hello'', content = js ''Wo''\<rparr>]"
proof -
  have t: "trim (js ''  Hello '') = js ''Hello''"
    by (simp add: trim_def trimStart_def trimEnd_def isWhiteSpace_def js_def)
  have c: "trim (js [CHR ''W'', CHR ''o'', CHR 0x0A]) = js ''Wo''"
    by (simp add: trim_def trimStart_def trimEnd_def isWhiteSpace_def js_def)
  have v: "isValid (js ''  Hello '') (js [CHR ''W'', CHR ''o'', CHR 0x0A])"
    by (simp add: isValid_def t c) (simp add: js_def)
  have n: "\<not> creating (store \<lparr>store = initialState, sent = []\<rparr>)"
    by (simp add: initialState_def)
  show ?thesis
    using v n submit_sends_trimmed [OF v n, of "Inl (Error (js ''Network Error''))"]
    by (simp add: t c)
qed

text \<open>
  C10 (form reset). After a submission that passes the guard of \<open>handleSubmit\<close>, title
  and content are empty however the create settles, fulfilled or rejected: the promise
  of \<open>handleCreate\<close> resolves in both cases, so \<open>handleSubmit\<close> reaches the two
  assignments and resolves too.
\<close>

theorem submit_resets_form:
  assumes "isValid t c" and "\<not> creating (store w)"
  shows "fst (snd (App_submit settled (t, c) w)) = ([], [])
    \<and> fst (App_submit settled (t, c) w) = None
    \<and> fst (handleCreate settled data w) = None"
  by (simp add: App_submit_valid [OF assms] handleCreate_resolves)

theorem submit_resets_form_witness:
  "isValid (js ''Hello'') (js ''World'')
   \<and> \<not> creating (store \<lparr>store = initialState, sent = []\<rparr>)
   \<and> fst (snd (App_submit (Inl (Error (js ''Network Error'')))
        (js ''Hello'', js ''World'') \<lparr>store = initialState, sent = []\<rparr>)) = ([], [])
   \<and> fst (snd (App_submit
        (Inr \<lparr>title = js ''Hello'', content = js ''World'', note_id = js ''1'',
              created_at = js ''2026-01-01''\<rparr>)
        (js ''Hello'', js ''World'') \<lparr>store = initialState, sent = []\<rparr>)) = ([], [])"
proof -
  have v: "isValid (js ''Hello'') (js ''World'')"
    by (simp add: isValid_def trim_def trimStart_def trimEnd_def isWhiteSpace_def js_def)
  have n: "\<not> creating (store \<lparr>store = initialState, sent = []\<rparr>)"
    by (simp add: initialState_def)
  show ?thesis
    using v n submit_resets_form [OF v n, of "Inl (Error (js ''Network Error''))"]
      submit_resets_form [OF v n,
        of "Inr \<lparr>title = js ''Hello'', content = js ''World'', note_id = js ''1'',
                created_at = js ''2026-01-01''\<rparr>"]
    by simp
qed

end
